theory Spec2Isabelle
  imports Main "HOL-Library.Word"
begin

unbundle bit_operations_syntax

section \<open>Data model\<close>

type_synonym uchar = "8 word"
type_synonym ushort = "16 word"
type_synonym uint = "32 word"

text \<open>The readiness state, the deferred command tag and the bit rate codes are the
  enumerations of the driver's header; the source uses exactly these constants.\<close>

datatype LCDSTATE = LCD_INACTIVE | LCD_IDLE | LCD_BUSY

datatype PGDCMD = PG_NONE | PG_SLEEP | PG_TOUCH_WAIT | PG_TOUCH_DATA

datatype DBAUD = DB_9600 | DB_57600 | DB_115200 | DB_128000 | DB_256000

text \<open>The termios speed constants the POSIX branch of \<open>PGD::SetBaud\<close> selects.\<close>

datatype speed_t = B9600 | B57600 | B115200

subsection \<open>The serial port and its environment\<close>

text \<open>
  The operating system and the device are the environment of the driver. The port
  record carries the descriptor as the source has it (\<open>fd\<close>, \<open>-1\<close> when closed)
  together with a script of what the environment will do:
  \<^item> \<open>txlog\<close>: the bytes \<open>write(2)\<close> has accepted so far, oldest first;
  \<^item> \<open>rxpend\<close>: bytes waiting in the inbound queue of the operating system;
  \<^item> \<open>rxq\<close>: what the coming \<open>Read\<close> calls meet once \<open>rxpend\<close> is empty;
  \<^item> \<open>wrq\<close>: the outcome of the coming \<open>Write\<close> calls: \<open>None\<close> is a failing
    \<open>write(2)\<close> with nothing sent, \<open>Some k\<close> accepts at most \<open>k\<close> bytes; an empty
    script accepts everything;
  \<^item> \<open>baudq\<close>: whether the coming \<open>tcsetattr\<close> calls of \<open>SetBaud\<close> succeed.

  Wall-clock time is not modelled. A \<open>Read\<close> that meets \<open>RdData []\<close> returns no byte
  although the deadline of the caller has not passed; \<open>RdQuiet\<close> (and the end of the
  script) is silence that lasts beyond the deadline of the caller.
\<close>

datatype rdres = RdFail | RdData "uchar list" | RdQuiet

record COMPORT =
  fd :: int
  hasterm :: bool
  txlog :: "uchar list"
  rxpend :: "uchar list"
  rxq :: "rdres list"
  wrq :: "nat option list"
  baudq :: "bool list"

text \<open>Modelled from the spec: \<open>COMPORT::IsOpen\<close> is declared in comport.h, which is
  not part of the sources at hand; the channel holds "a handle to an opened device (or
  none)", and every function of comport.cpp takes \<open>fd = -1\<close> for "none".\<close>

definition COMPORT_IsOpen :: "COMPORT \<Rightarrow> bool" where
  "COMPORT_IsOpen p = (fd p \<noteq> -1)"

definition COMPORT_Close :: "COMPORT \<Rightarrow> int \<times> COMPORT" where
  "COMPORT_Close p =
     (if fd p = -1 then (-1, p)
      else (0, p\<lparr>fd := -1, hasterm := False\<rparr>))"

text \<open>\<open>COMPORT::Write(data, len)\<close>: the list is \<open>data[0..len-1]\<close>.\<close>

definition COMPORT_Write :: "COMPORT \<Rightarrow> uchar list \<Rightarrow> int \<times> COMPORT" where
  "COMPORT_Write p buf =
     (if int (length buf) \<le> 0 then (-1, p)
      else if fd p = -1 then (-1, p)
      else (case wrq p of
              [] \<Rightarrow> (int (length buf), p\<lparr>txlog := txlog p @ buf\<rparr>)
            | None # q \<Rightarrow> (-1, p\<lparr>wrq := q\<rparr>)
            | Some k # q \<Rightarrow>
                (int (length (take k buf)),
                 p\<lparr>wrq := q, txlog := txlog p @ take k buf\<rparr>)))"

text \<open>\<open>COMPORT::Read(data, len, timeout)\<close> in raw mode (no delimiter; the driver never
  passes one). The result is \<open>None\<close> for the return value \<open>-1\<close> and otherwise the bytes
  put into \<open>data\<close>, whose number is the return value. At most \<open>len\<close> bytes are taken;
  the rest stays in the inbound queue.\<close>

definition COMPORT_Read :: "COMPORT \<Rightarrow> int \<Rightarrow> uchar list option \<times> COMPORT" where
  "COMPORT_Read p len =
     (if fd p = -1 then (None, p)
      else if len \<le> 0 then (None, p)
      else if rxpend p \<noteq> [] then
        (Some (take (nat len) (rxpend p)), p\<lparr>rxpend := drop (nat len) (rxpend p)\<rparr>)
      else (case rxq p of
              [] \<Rightarrow> (Some [], p)
            | RdFail # q \<Rightarrow> (None, p\<lparr>rxq := q\<rparr>)
            | RdQuiet # q \<Rightarrow> (Some [], p\<lparr>rxq := q\<rparr>)
            | RdData bs # q \<Rightarrow>
                (Some (take (nat len) bs), p\<lparr>rxq := q, rxpend := drop (nat len) bs\<rparr>)))"

text \<open>\<open>tcflush(fd, TCIFLUSH)\<close> discards the inbound queue.\<close>

definition COMPORT_Flush :: "COMPORT \<Rightarrow> int \<times> COMPORT" where
  "COMPORT_Flush p =
     (if fd p < 0 then (-1, p)
      else (0, p\<lparr>rxpend := []\<rparr>))"

text \<open>\<open>COMPORT::SetBaud\<close>: the terminal attributes are the operating system's; the
  script says whether setting them succeeds. On success both queues are flushed.\<close>

definition COMPORT_SetBaud :: "COMPORT \<Rightarrow> speed_t \<Rightarrow> int \<times> COMPORT" where
  "COMPORT_SetBaud p speed =
     (let p1 = p\<lparr>hasterm := True\<rparr> in
      if fd p = -1 then (-1, p1)
      else (case baudq p of
              [] \<Rightarrow> (0, p1\<lparr>rxpend := []\<rparr>)
            | True # q \<Rightarrow> (0, p1\<lparr>baudq := q, rxpend := []\<rparr>)
            | False # q \<Rightarrow> (-1, p1\<lparr>baudq := q\<rparr>)))"

subsection \<open>The controller\<close>

text \<open>
  A handler and the user context are pointers: \<open>None\<close> is \<open>NULL\<close>. The handler is
  code of the user; an invocation is recorded in \<open>calls\<close> with its arguments and with
  what the handler can see of the controller at that moment (readiness state, command
  tag, whether the port is open). \<open>curdata\<close> is the address of the two 16-bit cells of
  the caller, \<open>store\<close> the memory at such addresses, \<open>datain\<close> the receive buffer by
  index.
\<close>

datatype event =
  Callback (cb_fn: nat) (cb_cmd: PGDCMD) (cb_ok: bool) (cb_obj: "nat option")
           (seen_state: LCDSTATE) (seen_cmd: PGDCMD) (seen_open: bool)

record PGD =
  halt :: bool
  state :: LCDSTATE
  errmsg :: string
  baud :: DBAUD
  portspeed :: speed_t
  curcmd :: PGDCMD
  curdata :: "nat option"
  brcv :: int
  datain :: "nat \<Rightarrow> uchar"
  callback :: "nat option"
  usrobj :: "nat option"
  port :: COMPORT
  calls :: "event list"
  store :: "nat \<Rightarrow> ushort \<times> ushort"

text \<open>The constructors. \<open>PGD::PGD()\<close> leaves \<open>portspeed\<close> unset (\<open>autobaud\<close> sets
  it to \<open>B9600\<close>); the scripts of the environment start empty.\<close>

definition COMPORT_new :: COMPORT where
  "COMPORT_new =
     \<lparr>fd = -1, hasterm = False, txlog = [], rxpend = [], rxq = [], wrq = [], baudq = []\<rparr>"

definition PGD_new :: PGD where
  "PGD_new =
     \<lparr>halt = False, state = LCD_INACTIVE, errmsg = [], baud = DB_9600, portspeed = B9600,
      curcmd = PG_NONE, curdata = None, brcv = 0, datain = (\<lambda>i. 0),
      callback = None, usrobj = None, port = COMPORT_new, calls = [],
      store = (\<lambda>a. (0, 0))\<rparr>"

text \<open>The operating system takes the next \<open>Write\<close> of \<open>n\<close> bytes whole.\<close>

definition accepts :: "COMPORT \<Rightarrow> nat \<Rightarrow> bool" where
  "accepts p n =
     (0 \<le> fd p \<and> (case wrq p of [] \<Rightarrow> True | None # q \<Rightarrow> False | Some k # q \<Rightarrow> n \<le> k))"

text \<open>\<open>if (callback) callback(this, cmd, ok, usrobj);\<close>\<close>

definition invoke :: "PGD \<Rightarrow> PGDCMD \<Rightarrow> bool \<Rightarrow> PGD" where
  "invoke s cmd ok =
     (case callback s of
        None \<Rightarrow> s
      | Some f \<Rightarrow>
          s\<lparr>calls := calls s @
                [Callback f cmd ok (usrobj s) (state s) (curcmd s) (COMPORT_IsOpen (port s))]\<rparr>)"

section \<open>Low level commands\<close>

definition SetCallback :: "nat option \<Rightarrow> nat option \<Rightarrow> PGD \<Rightarrow> int \<times> PGD" where
  "SetCallback cb obj s =
     (if state s = LCD_BUSY then (-1, s\<lparr>errmsg := ''display busy''\<rparr>)
      else (0, s\<lparr>callback := cb, usrobj := obj\<rparr>))"

text \<open>The inner \<open>for\<close> loop of \<open>waitACKNACK\<close> over the bytes just read: the first ACK
  or NACK decides.\<close>

fun scanACKNACK :: "uchar list \<Rightarrow> int option" where
  "scanACKNACK [] = None"
| "scanACKNACK (b # bs) =
     (if b = 0x06 then Some 0 else if b = 0x15 then Some 1 else scanACKNACK bs)"

text \<open>The deadline test of the \<open>while\<close> loop: the clock is the environment's. On
  entry the deadline is never before the current time, so the loop always reads once;
  after a \<open>Read\<close> the deadline has passed when silence beyond it was all that the
  \<open>Read\<close> met.\<close>

definition deadline :: "COMPORT \<Rightarrow> bool" where
  "deadline p = (rxpend p = [] \<and> (case rxq p of [] \<Rightarrow> True | e # q \<Rightarrow> e = RdQuiet))"

fun rdsize :: "rdres \<Rightarrow> nat" where
  "rdsize (RdData bs) = Suc (length bs)"
| "rdsize e = 1"

definition pending :: "COMPORT \<Rightarrow> nat" where
  "pending p = length (rxpend p) + sum_list (map rdsize (rxq p))"

function waitloop :: "COMPORT \<Rightarrow> int \<times> COMPORT" where
  "waitloop p =
     (case COMPORT_Read p 4 of
        (None, p') \<Rightarrow> (-1, p')
      | (Some msg, p') \<Rightarrow>
          (case scanACKNACK msg of
             Some r \<Rightarrow> (r, p')
           | None \<Rightarrow> if deadline p then (2, p') else waitloop p'))"
  by pat_completeness auto
termination waitloop
  apply (relation "measure pending")
   apply simp
  apply (auto simp: COMPORT_Read_def deadline_def pending_def
              split: if_splits list.splits rdres.splits)
  done

text \<open>\<open>PGD::waitACKNACK(timeout)\<close>: \<open>-1\<close> for a communications fault, \<open>0\<close> for ACK,
  \<open>1\<close> for NACK, \<open>2\<close> for a timeout. The loop is \<open>waitloop\<close>; the two \<open>ERRMSG\<close>
  of the source sit at its two failing exits. The length of the wait is the
  environment's to decide, so \<open>timeout\<close> does not enter the result.\<close>

definition waitACKNACK :: "int \<Rightarrow> PGD \<Rightarrow> int \<times> PGD" where
  "waitACKNACK timeout s =
     (case waitloop (port s) of
        (r, p) \<Rightarrow>
          (r, s\<lparr>port := p,
                errmsg := (if r = -1 then ''failed (see message below)''
                           else if r = 2 then ''timeout''
                           else errmsg s)\<rparr>))"

text \<open>Every command repeats \<open>port.Flush(); res = port.Write(cmd, n);\<close> and, when
  \<open>res\<close> is not \<open>n\<close>, the same three lines of error return.\<close>

definition flush_write :: "uchar list \<Rightarrow> PGD \<Rightarrow> int \<times> PGD" where
  "flush_write cmd s =
     (case COMPORT_Write (snd (COMPORT_Flush (port s))) cmd of
        (res, p) \<Rightarrow> (res, s\<lparr>port := p\<rparr>))"

definition write_failed :: "int \<Rightarrow> PGD \<Rightarrow> int \<times> PGD" where
  "write_failed res s =
     ((if res > 0 then -2 else -1), s\<lparr>errmsg := ''failed; see message below''\<rparr>)"

text \<open>\<open>(x >> 8) & 0xff\<close> and \<open>x & 0xff\<close> stored into a \<open>char\<close>.\<close>

definition hi8 :: "ushort \<Rightarrow> uchar" where
  "hi8 x = ucast (drop_bit 8 x AND 0xff)"

definition lo8 :: "ushort \<Rightarrow> uchar" where
  "lo8 x = ucast (x AND 0xff)"

definition convertRes :: "uchar \<Rightarrow> uint" where
  "convertRes rescode =
     (if rescode = 0x22 then 220
      else if rescode = 0x24 then 240
      else if rescode = 0x28 then 128
      else if rescode = 0x32 then 320
      else if rescode = 0x60 then 160
      else if rescode = 0x64 then 64
      else if rescode = 0x76 then 176
      else if rescode = 0x96 then 96
      else 0)"

text \<open>\<open>value\<close> is an \<open>unsigned char\<close>, promoted to \<open>int\<close> in the comparisons.\<close>

definition SetVolume :: "uchar \<Rightarrow> PGD \<Rightarrow> int \<times> PGD" where
  "SetVolume val s =
     (if state s = LCD_INACTIVE then (-1, s\<lparr>errmsg := ''display inactive''\<rparr>)
      else if state s = LCD_BUSY then (-1, s\<lparr>errmsg := ''display busy''\<rparr>)
      else if uint val < 0 \<or> uint val > 0xff
              \<or> (uint val > 3 \<and> uint val < 8)
              \<or> (uint val > 127 \<and> uint val < 0xfd)
      then (-1, s\<lparr>errmsg := ''invalid value for Volume Control (%d); valid values are 0..3, 8..127, 253..255''\<rparr>)
      else (case flush_write [0x76, val] s of
              (res, s1) \<Rightarrow>
                if res \<noteq> 2 then write_failed res s1
                else waitACKNACK 100 s1))"

definition Suspend :: "uchar \<Rightarrow> uchar \<Rightarrow> PGD \<Rightarrow> int \<times> PGD" where
  "Suspend options duration s =
     (if state s = LCD_INACTIVE then (-1, s\<lparr>errmsg := ''display inactive''\<rparr>)
      else if state s = LCD_BUSY then (-1, s\<lparr>errmsg := ''display busy''\<rparr>)
      else if options AND 0x10 \<noteq> 0
      then (-1, s\<lparr>errmsg := ''invalid value for Suspend (Sleep); bit 4 (0x10) must not be set''\<rparr>)
      else if options AND 0x2f = 0x22
      then (-1, s\<lparr>errmsg := ''Wake on Touch was specified with Touch OFF''\<rparr>)
      else (case flush_write [0x5A, options, duration] s of
              (res, s1) \<Rightarrow>
                if res \<noteq> 3 then write_failed res s1
                else (case waitACKNACK 100 s1 of
                        (w, s2) \<Rightarrow>
                          if w = 0 then (0, s2)
                          else if w = 1 then (1, s2)
                          else if w = 2 then
                            (2, if options AND 0x0f \<noteq> 0
                                then s2\<lparr>curcmd := PG_SLEEP, curdata := None, state := LCD_BUSY\<rparr>
                                else s2)
                          else (-1, s2))))"

section \<open>Graphics and text commands\<close>

definition Rectangle ::
  "ushort \<Rightarrow> ushort \<Rightarrow> ushort \<Rightarrow> ushort \<Rightarrow> ushort \<Rightarrow> PGD \<Rightarrow> int \<times> PGD" where
  "Rectangle x1 y1 x2 y2 color s =
     (if state s = LCD_INACTIVE then (-1, s\<lparr>errmsg := ''display inactive''\<rparr>)
      else if state s = LCD_BUSY then (-1, s\<lparr>errmsg := ''display busy''\<rparr>)
      else (let cmd = [0x72, hi8 x1, lo8 x1, hi8 y1, lo8 y1, hi8 x2, lo8 x2,
                       hi8 y2, lo8 y2, hi8 color, lo8 color]
            in case flush_write cmd s of
                 (res, s1) \<Rightarrow>
                   if res \<noteq> 11 then write_failed res s1
                   else waitACKNACK 100 s1))"

text \<open>A \<open>const char *\<close> is \<open>None\<close> for \<open>NULL\<close> and otherwise the bytes at the pointer;
  the string ends before the first zero byte.\<close>

definition strlen :: "uchar list \<Rightarrow> nat" where
  "strlen str = length (takeWhile (\<lambda>c. c \<noteq> 0) str)"

definition ShowString ::
  "uchar \<Rightarrow> uchar \<Rightarrow> uchar \<Rightarrow> ushort \<Rightarrow> uchar list option \<Rightarrow> PGD \<Rightarrow> int \<times> PGD" where
  "ShowString col row font color data s =
     (if state s = LCD_INACTIVE then (-1, s\<lparr>errmsg := ''display inactive''\<rparr>)
      else if state s = LCD_BUSY then (-1, s\<lparr>errmsg := ''display busy''\<rparr>)
      else (case data of
              None \<Rightarrow> (-1, s\<lparr>errmsg := ''invalid string pointer (NULL)''\<rparr>)
            | Some str \<Rightarrow>
                if strlen str = 0 then (0, s)
                else (let dlen = (if strlen str > 256 then 256 else strlen str);
                          cmd = [0x73, col, row, font, hi8 color, lo8 color]
                                @ take dlen str @ [0]
                      in case flush_write cmd s of
                           (res, s1) \<Rightarrow>
                             if res \<noteq> int (dlen + 7) then write_failed res s1
                             else waitACKNACK 400 s1)))"

definition ScaleString ::
  "ushort \<Rightarrow> ushort \<Rightarrow> uchar \<Rightarrow> ushort \<Rightarrow> uchar \<Rightarrow> uchar \<Rightarrow> uchar list option
     \<Rightarrow> PGD \<Rightarrow> int \<times> PGD" where
  "ScaleString x y font color width height data s =
     (if state s = LCD_INACTIVE then (-1, s\<lparr>errmsg := ''display inactive''\<rparr>)
      else if state s = LCD_BUSY then (-1, s\<lparr>errmsg := ''display busy''\<rparr>)
      else (case data of
              None \<Rightarrow> (-1, s\<lparr>errmsg := ''invalid string pointer (NULL)''\<rparr>)
            | Some str \<Rightarrow>
                if strlen str = 0 then (0, s)
                else (let dlen = (if strlen str > 256 then 256 else strlen str);
                          cmd = [0x53, hi8 x, lo8 x, hi8 y, lo8 y, font,
                                 hi8 color, lo8 color, width, height]
                                @ take dlen str @ [0]
                      in case flush_write cmd s of
                           (res, s1) \<Rightarrow>
                             if res \<noteq> int (dlen + 11) then write_failed res s1
                             else waitACKNACK 5000 s1)))"

definition Button ::
  "bool \<Rightarrow> ushort \<Rightarrow> ushort \<Rightarrow> ushort \<Rightarrow> uchar \<Rightarrow> ushort \<Rightarrow> uchar \<Rightarrow> uchar
     \<Rightarrow> uchar list option \<Rightarrow> PGD \<Rightarrow> int \<times> PGD" where
  "Button pressed x y bcolor font tcolor xmul ymul text s =
     (if state s = LCD_INACTIVE then (-1, s\<lparr>errmsg := ''display inactive''\<rparr>)
      else if state s = LCD_BUSY then (-1, s\<lparr>errmsg := ''display busy''\<rparr>)
      else (case text of
              None \<Rightarrow> (-1, s\<lparr>errmsg := ''invalid string pointer (NULL)''\<rparr>)
            | Some str \<Rightarrow>
                if strlen str = 0 then (0, s)
                else (let dlen = (if strlen str > 256 then 256 else strlen str);
                          cmd = [0x62, (if pressed then 1 else 0), hi8 x, lo8 x,
                                 hi8 y, lo8 y, hi8 bcolor, lo8 bcolor, font,
                                 hi8 tcolor, lo8 tcolor, xmul, ymul]
                                @ take dlen str @ [0]
                      in case flush_write cmd s of
                           (res, s1) \<Rightarrow>
                             if res \<noteq> int (dlen + 14) then write_failed res s1
                             else waitACKNACK 2000 s1)))"

section \<open>Bit rate\<close>

text \<open>\<open>PGD::SetBaud(speed)\<close>, POSIX branch. The byte sent after \<open>'Q'\<close> is the numeric
  value of the enumeration constant, which the header defines; it is the parameter
  \<open>code\<close>.\<close>

definition SetBaud :: "(DBAUD \<Rightarrow> uchar) \<Rightarrow> DBAUD \<Rightarrow> PGD \<Rightarrow> int \<times> PGD" where
  "SetBaud code speed s =
     (if state s = LCD_INACTIVE then (-1, s\<lparr>errmsg := ''display inactive''\<rparr>)
      else if state s = LCD_BUSY then (-1, s\<lparr>errmsg := ''display busy''\<rparr>)
      else if speed = baud s then (0, s)
      else (case (case speed of
                    DB_9600 \<Rightarrow> Some B9600
                  | DB_57600 \<Rightarrow> Some B57600
                  | DB_115200 \<Rightarrow> Some B115200
                  | DB_128000 \<Rightarrow> None
                  | DB_256000 \<Rightarrow> None) of
              None \<Rightarrow> (-1, s\<lparr>errmsg := ''bitrate not supported in Linux: %d''\<rparr>)
            | Some tspeed \<Rightarrow>
                (case COMPORT_SetBaud (port s) tspeed of
                   (r1, p1) \<Rightarrow>
                     if r1 \<noteq> 0
                     then (-1, s\<lparr>port := p1,
                                 errmsg := ''bitrate not supported on system/hardware (see below)''\<rparr>)
                     else (case COMPORT_SetBaud p1 (portspeed s) of
                             (r2, p2) \<Rightarrow>
                               if r2 < 0
                               then (-1, s\<lparr>port := p2,
                                           errmsg := ''cannot revert to original bitrate''\<rparr>)
                               else (case flush_write [0x51, code speed] (s\<lparr>port := p2\<rparr>) of
                                       (res, s3) \<Rightarrow>
                                         if res \<noteq> 2
                                         then ((if res > 0 then -2 else -1),
                                               s3\<lparr>errmsg := ''failed to send SetBaud command (see below)''\<rparr>)
                                         else (case waitACKNACK 100 s3 of
                                                 (w, s4) \<Rightarrow>
                                                   if w = 1
                                                   then (1, s4\<lparr>errmsg := ''NACK on SetBaud() request''\<rparr>)
                                                   else (case COMPORT_SetBaud (port s4) tspeed of
                                                           (r5, p5) \<Rightarrow>
                                                             if r5 \<noteq> 0
                                                             then (-2, s4\<lparr>port := p5,
                                                                         errmsg := ''could not switch host bitrate after switching display bitrate''\<rparr>)
                                                             else (0, s4\<lparr>port := p5, baud := speed,
                                                                        portspeed := tspeed\<rparr>))))))))"

section \<open>The worker routine\<close>

text \<open>\<open>memcpy\<close> of the bytes read into the receive buffer from index \<open>i\<close> on, and the
  big-endian pair \<open>((d0 << 8) & 0xff00) | (d1 & 0xff)\<close>.\<close>

fun putbytes :: "(nat \<Rightarrow> uchar) \<Rightarrow> nat \<Rightarrow> uchar list \<Rightarrow> (nat \<Rightarrow> uchar)" where
  "putbytes a i [] = a"
| "putbytes a i (b # bs) = putbytes (a(i := b)) (Suc i) bs"

definition be16 :: "uchar \<Rightarrow> uchar \<Rightarrow> ushort" where
  "be16 d0 d1 = (push_bit 8 (ucast d0) AND 0xff00) OR (ucast d1 AND 0xff)"

text \<open>\<open>PGD::Process()\<close>, one iteration of the worker thread. \<open>PG_SLEEP\<close> and
  \<open>PG_TOUCH_WAIT\<close> share one body in the source. The four constants are all the
  command tags there are, so the \<open>default\<close> branch of the outer switch and the lines
  after it are not reachable.

  The two bodies that block are functions of their own, \<open>Process_await\<close> from the call
  of \<open>waitACKNACK(200)\<close> on and \<open>Process_data\<close> from the call of \<open>port.Read\<close> on,
  each with the local \<open>tmpcmd\<close> that \<open>Process\<close> copied on entry: these are the places
  where the worker stands while another thread works on the controller.\<close>

definition Process_await :: "PGDCMD \<Rightarrow> PGD \<Rightarrow> int \<times> PGD" where
  "Process_await tmpcmd s =
     (case waitACKNACK 200 s of
        (w, s1) \<Rightarrow>
          if w = 0 then
            (0, invoke (s1\<lparr>curcmd := PG_NONE, state := LCD_IDLE\<rparr>) tmpcmd True)
          else if w = 1 then
            (0, invoke (s1\<lparr>errmsg := ''NACK'', curcmd := PG_NONE,
                          state := LCD_IDLE\<rparr>) tmpcmd False)
          else if w = -1 then
            (0, invoke (s1\<lparr>curcmd := PG_NONE, state := LCD_IDLE\<rparr>) tmpcmd False)
          else if w = 2 then (0, s1)
          else
            (0, invoke (s1\<lparr>errmsg := ''unexpected return from waitACKNACK (only 0,1,2,-1 accepted)'',
                          curcmd := PG_NONE, state := LCD_IDLE\<rparr>) tmpcmd False))"

definition Process_data :: "PGDCMD \<Rightarrow> PGD \<Rightarrow> int \<times> PGD" where
  "Process_data tmpcmd s =
     (case COMPORT_Read (port s) (4 - brcv s) of
        (None, p) \<Rightarrow>
          (0, invoke (s\<lparr>port := p,
                        errmsg := ''PG_TOUCH_DATA: communications fault, see message below'',
                        curcmd := PG_NONE, state := LCD_IDLE\<rparr>) tmpcmd False)
      | (Some bytes, p) \<Rightarrow>
          (let s1 = s\<lparr>port := p,
                      datain := putbytes (datain s) (nat (brcv s)) bytes\<rparr>
           in if bytes \<noteq> [] then
                (let s2 = s1\<lparr>brcv := brcv s1 + int (length bytes)\<rparr>
                 in if brcv s2 = 4 then
                      (case curdata s2 of
                         None \<Rightarrow>
                           (0, invoke (s2\<lparr>errmsg := ''data pointer is NULL'',
                                          curcmd := PG_NONE, state := LCD_IDLE\<rparr>)
                                 tmpcmd False)
                       | Some sp \<Rightarrow>
                           (0, invoke (s2\<lparr>store := (store s2)
                                            (sp := (be16 (datain s2 0) (datain s2 1),
                                                    be16 (datain s2 2) (datain s2 3))),
                                          curcmd := PG_NONE, state := LCD_IDLE\<rparr>)
                                 tmpcmd True))
                    else (0, s2))
              else (0, s1)))"

definition Process :: "PGD \<Rightarrow> int \<times> PGD" where
  "Process s =
     (if halt s then (-1, s)
      else if state s \<noteq> LCD_BUSY then (0, s)
      else (let tmpcmd = curcmd s in
            case curcmd s of
              PG_NONE \<Rightarrow>
                (0, invoke (s\<lparr>errmsg := ''unexpected case: cmd = PG_NONE while state = LCD_BUSY'',
                              state := LCD_IDLE\<rparr>) PG_NONE False)
            | PG_TOUCH_DATA \<Rightarrow> Process_data tmpcmd s
            | _ \<Rightarrow> Process_await tmpcmd s))"

text \<open>What one iteration of the worker does to a controller \<open>s\<close>. It completes the
  deferred command with result \<open>ok\<close> when afterwards the command tag is \<open>PG_NONE\<close>, the
  state is Idle, and the handler, if one is registered, has been invoked exactly once
  more, with the tag of the command, \<open>ok\<close> and the user context, and has seen the tag
  already cleared and the state already Idle. It stays busy when tag, data pointer and
  Busy state are as before and no handler has been invoked.\<close>

definition completes :: "PGD \<Rightarrow> bool \<Rightarrow> PGD \<Rightarrow> bool" where
  "completes s ok s' \<longleftrightarrow>
     curcmd s' = PG_NONE \<and> state s' = LCD_IDLE
     \<and> calls s' = calls s @ (case callback s of
                               None \<Rightarrow> []
                             | Some f \<Rightarrow> [Callback f (curcmd s) ok (usrobj s) LCD_IDLE PG_NONE
                                            (COMPORT_IsOpen (port s))])"

definition stays_busy :: "PGD \<Rightarrow> PGD \<Rightarrow> bool" where
  "stays_busy s s' \<longleftrightarrow>
     curcmd s' = curcmd s \<and> curdata s' = curdata s \<and> state s' = LCD_BUSY
     \<and> calls s' = calls s"

section \<open>The worker thread and shutdown\<close>

text \<open>\<open>procthread\<close> runs \<open>while (!pp->Process());\<close>. The loop ends when \<open>Process\<close>
  returns a value other than 0, which it does only once \<open>halt\<close> is set; while \<open>halt\<close>
  is clear the loop does not end on its own, and \<open>procthread\<close> has no value then.\<close>

partial_function (option) procthread :: "PGD \<Rightarrow> PGD option" where
  "procthread s =
     (case Process s of
        (r, s') \<Rightarrow> if r \<noteq> 0 then Some s' else procthread s')"

text \<open>
  The worker and the caller are two threads on one controller. Where the worker stands
  when the caller acts is part of the state of the program:
  \<^item> \<open>NoThread\<close>: no worker was started (\<open>procloop\<close> is 0);
  \<^item> \<open>AtLoop\<close>: at the head of its loop, about to call \<open>Process\<close> (the sleep of an
    idle iteration ends there);
  \<^item> \<open>InWait tmpcmd\<close>: inside \<open>Process\<close>, about to read in \<open>waitACKNACK(200)\<close>;
  \<^item> \<open>InData tmpcmd\<close>: inside \<open>Process\<close>, about to read the touch data.

  While a command is deferred the worker spends its time in one of the last two.
  \<open>pthread_join\<close> lets the worker run on from where it stands until its loop ends.
\<close>

datatype worker = NoThread | AtLoop | InWait PGDCMD | InData PGDCMD

definition pthread_join :: "worker \<Rightarrow> PGD \<Rightarrow> PGD option" where
  "pthread_join w s =
     (case w of
        NoThread \<Rightarrow> Some s
      | AtLoop \<Rightarrow> procthread s
      | InWait tmpcmd \<Rightarrow> procthread (snd (Process_await tmpcmd s))
      | InData tmpcmd \<Rightarrow> procthread (snd (Process_data tmpcmd s)))"

text \<open>\<open>PGD::Close()\<close>, called while the worker stands at \<open>w\<close>. The schedule is the
  one in which the worker, blocked in its read, does not move while \<open>Close\<close> runs its
  statements up to the join (with the bit rate already at 9600 these are a handful of
  assignments and one \<open>close(2)\<close>), and runs on when \<open>Close\<close> waits for it. The
  result is \<open>None\<close> when the join does not return.\<close>

definition Close :: "(DBAUD \<Rightarrow> uchar) \<Rightarrow> worker \<Rightarrow> PGD \<Rightarrow> PGD option" where
  "Close code w s =
     (if \<not> COMPORT_IsOpen (port s) then Some s
      else (let s1 = s\<lparr>errmsg := [], halt := True\<rparr>;
                s2 = (if state s1 = LCD_BUSY
                      then (let tmpcmd = curcmd s1
                            in invoke (s1\<lparr>errmsg := ''port is closing'', curcmd := PG_NONE,
                                          curdata := None, state := LCD_IDLE\<rparr>) tmpcmd False)
                      else s1);
                s3 = (if state s2 \<noteq> LCD_INACTIVE then snd (SetBaud code DB_9600 s2) else s2);
                s4 = s3\<lparr>port := snd (COMPORT_Close (port s3)), state := LCD_INACTIVE\<rparr>
            in pthread_join w s4))"

section \<open>Memory card, FAT commands\<close>

text \<open>The block loop of \<open>SDWriteFileFAT\<close>, from block \<open>i\<close> on: \<open>Some r\<close> is a
  \<open>return r\<close> inside the loop, \<open>None\<close> the end of the loop. \<open>dp\<close> lists the bytes at
  the data pointer; a block that reaches beyond them is handed over as far as they go.\<close>

function wrblocks :: "nat \<Rightarrow> nat \<Rightarrow> nat \<Rightarrow> uchar list \<Rightarrow> PGD \<Rightarrow> int option \<times> PGD" where
  "wrblocks i nblk nresid dp s =
     (if i < nblk then
        (let bs = (if i = nblk - 1 \<and> nresid \<noteq> 0 then nresid else 50)
         in case waitACKNACK 1000 s of
              (w, s1) \<Rightarrow>
                if w = 0 then
                  (let idx = i * 50
                   in case COMPORT_Write (port s1) (take bs (drop idx dp)) of
                        (res, p) \<Rightarrow>
                          if res \<noteq> int bs
                          then (Some (-2), s1\<lparr>port := p, errmsg := ''failed; see message below''\<rparr>)
                          else wrblocks (i + 1) nblk nresid dp (s1\<lparr>port := p\<rparr>))
                else if w = 1 then
                  (if i = 0 then (Some 1, s1)
                   else (Some (-2), s1\<lparr>errmsg := ''NACK after packet %d''\<rparr>))
                else (Some (-1), s1\<lparr>errmsg := ''write problems after packet %d''\<rparr>))
      else (None, s))"
  by pat_completeness auto
termination wrblocks
  by (relation "measure (\<lambda>(i, nblk, nresid, dp, s). nblk - i)") auto

text \<open>\<open>PGD::SDWriteFileFAT(data, size, filename, append)\<close>. The command header
  \<open>cmd\<close> is filled in as the source fills it in; no statement of the function hands it
  to \<open>port.Write\<close>.\<close>

definition SDWriteFileFAT ::
  "uchar list option \<Rightarrow> uint \<Rightarrow> uchar list option \<Rightarrow> bool \<Rightarrow> PGD \<Rightarrow> int \<times> PGD" where
  "SDWriteFileFAT data sz filename appnd s =
     (if state s = LCD_INACTIVE then (-1, s\<lparr>errmsg := ''display inactive''\<rparr>)
      else if state s = LCD_BUSY then (-1, s\<lparr>errmsg := ''display busy''\<rparr>)
      else (case data of
              None \<Rightarrow> (-1, s\<lparr>errmsg := ''invalid data pointer (NULL)''\<rparr>)
            | Some dp \<Rightarrow>
                (case filename of
                   None \<Rightarrow> (-1, s\<lparr>errmsg := ''invalid filename (NULL pointer)''\<rparr>)
                 | Some fname \<Rightarrow>
                     (let len = strlen fname in
                      if len < 1 \<or> len > 12
                      then (-1, s\<lparr>errmsg := ''invalid filename length; must be 1..12 characters''\<rparr>)
                      else (let s1 = s\<lparr>port := snd (COMPORT_Flush (port s))\<rparr>;
                                hs = (if unat sz \<le> 100 then 0 else 50);
                                nblk = (if unat sz \<le> 100 then 1
                                        else unat sz div 50
                                             + (if unat sz mod 50 \<noteq> 0 then 1 else 0));
                                nresid = (if unat sz \<le> 100 then unat sz else unat sz mod 50);
                                cmd = [0x40, 0x74, (if appnd then hs OR 0x80 else hs)]
                                      @ take len fname @ [0]
                                      @ [ucast (drop_bit 24 sz AND 0xff), ucast (drop_bit 16 sz AND 0xff),
                                         ucast (drop_bit 8 sz AND 0xff), ucast (sz AND 0xff) :: uchar]
                            in case wrblocks 0 nblk nresid dp s1 of
                                 (Some r, s2) \<Rightarrow> (r, s2)
                                 | (None, s2) \<Rightarrow> waitACKNACK 1000 s2)))))"

text \<open>The \<open>for\<close> loop of \<open>SDListDirFAT\<close> over the bytes of one read, with the entry
  under construction and the list so far: \<open>Some r\<close> is a \<open>return r\<close> inside the loop.\<close>

fun scanDir ::
  "uchar list \<Rightarrow> uchar list \<Rightarrow> uchar list list \<Rightarrow> int option \<times> uchar list \<times> uchar list list" where
  "scanDir [] direntry dir = (None, direntry, dir)"
| "scanDir (b # bs) direntry dir =
     (if b = 0x0a \<or> b = 0x06 \<or> b \<noteq> 0x15 then
        (let dir1 = (if direntry \<noteq> [] then dir @ [direntry] else dir)
         in if b = 0x06 then (Some (int (length dir1)), [], dir1)
            else if b = 0x15 then (Some (-1), [], dir1)
            else scanDir bs [] dir1)
      else scanDir bs (direntry @ [b]) dir)"

function listloop ::
  "uchar list \<Rightarrow> uchar list list \<Rightarrow> PGD \<Rightarrow> int \<times> uchar list list \<times> PGD" where
  "listloop direntry dir s =
     (case COMPORT_Read (port s) 512 of
        (None, p) \<Rightarrow>
          (-1, dir, s\<lparr>port := p,
                      errmsg := ''failed after acquiring %d entries; see message below''\<rparr>)
      | (Some buf, p) \<Rightarrow>
          if buf = [] then
            (-1, dir, s\<lparr>port := p, errmsg := ''TIMEOUT; no ACK or NACK detected; %d entries''\<rparr>)
          else (case scanDir buf direntry dir of
                  (Some r, de, dir') \<Rightarrow>
                    (r, dir', s\<lparr>port := p,
                               errmsg := (if r = -1 then ''failed after acquiring %d entries (NACK)''
                                          else errmsg s)\<rparr>)
                | (None, de, dir') \<Rightarrow> listloop de dir' (s\<lparr>port := p\<rparr>)))"
  by pat_completeness auto
termination listloop
  apply (relation "measure (\<lambda>(direntry, dir, s). pending (port s))")
   apply simp
  apply (auto simp: COMPORT_Read_def pending_def split: if_splits list.splits rdres.splits)
  done

text \<open>\<open>PGD::SDListDirFAT(pattern, dir)\<close>; \<open>dir0\<close> is what the list of the caller
  holds before the call.\<close>

definition SDListDirFAT ::
  "uchar list option \<Rightarrow> uchar list list \<Rightarrow> PGD \<Rightarrow> int \<times> uchar list list \<times> PGD" where
  "SDListDirFAT pattern dir0 s =
     (if state s = LCD_INACTIVE then (-1, dir0, s\<lparr>errmsg := ''display inactive''\<rparr>)
      else if state s = LCD_BUSY then (-1, dir0, s\<lparr>errmsg := ''display busy''\<rparr>)
      else (case pattern of
              None \<Rightarrow> (-1, dir0, s\<lparr>errmsg := ''invalid filename (NULL pointer)''\<rparr>)
            | Some pat \<Rightarrow>
                (let len = strlen pat in
                 if len < 1 \<or> len > 12
                 then (-1, dir0, s\<lparr>errmsg := ''invalid filename length; must be 1..12 characters''\<rparr>)
                 else (case flush_write ([0x40, 0x64] @ take len pat @ [0]) s of
                         (res, s1) \<Rightarrow>
                           if res \<noteq> int (len + 3)
                           then (case write_failed res s1 of (r, s2) \<Rightarrow> (r, dir0, s2))
                           else listloop [] [] s1))))"

section \<open>Example controllers\<close>

text \<open>A controller after a successful \<open>Connect\<close> that stayed at 9600 baud: idle, the
  port open on descriptor 3, facing a device that will answer with \<open>rx\<close>.\<close>

definition connected :: "rdres list \<Rightarrow> PGD" where
  "connected rx =
     PGD_new\<lparr>state := LCD_IDLE, port := COMPORT_new\<lparr>fd := 3, hasterm := True, rxq := rx\<rparr>\<rparr>"

section \<open>What the wait loop leaves alone\<close>

lemma COMPORT_Read_frame:
  "COMPORT_Read p n = (r, p') \<Longrightarrow> p' = p\<lparr>rxpend := rxpend p', rxq := rxq p'\<rparr>"
  by (auto simp: COMPORT_Read_def split: if_splits list.splits rdres.splits)

lemma waitloop_frame:
  "snd (waitloop p) = p\<lparr>rxpend := rxpend (snd (waitloop p)), rxq := rxq (snd (waitloop p))\<rparr>"
proof (induction p rule: waitloop.induct)
  case (1 p)
  obtain r p' where rd: "COMPORT_Read p 4 = (r, p')" by (cases "COMPORT_Read p 4")
  note fr = COMPORT_Read_frame [OF rd]
  show ?case
  proof (cases r)
    case None
    with rd fr show ?thesis by (subst (1 2 3) waitloop.simps) simp
  next
    case (Some msg)
    show ?thesis
    proof (cases "scanACKNACK msg")
      case (Some a)
      with rd fr \<open>r = Some msg\<close> show ?thesis by (subst (1 2 3) waitloop.simps) simp
    next
      case None
      show ?thesis
      proof (cases "deadline p")
        case True
        with rd fr \<open>r = Some msg\<close> None show ?thesis
          by (subst (1 2 3) waitloop.simps) simp
      next
        case False
        have "waitloop p = waitloop p'"
          using False rd Some None by (subst waitloop.simps) simp
        moreover have "snd (waitloop p') =
            p'\<lparr>rxpend := rxpend (snd (waitloop p')), rxq := rxq (snd (waitloop p'))\<rparr>"
          using "1.IH" [OF rd [symmetric] Some None False] by simp
        ultimately show ?thesis using fr
          by (metis (no_types) COMPORT.surjective COMPORT.update_convs(4,5))
      qed
    qed
  qed
qed

lemma waitloop_txlog: "txlog (snd (waitloop p)) = txlog p"
  by (subst waitloop_frame) simp

lemma waitloop_fd: "fd (snd (waitloop p)) = fd p"
  by (subst waitloop_frame) simp

lemma waitACKNACK_txlog: "txlog (port (snd (waitACKNACK t s))) = txlog (port s)"
proof -
  obtain r p where w: "waitloop (port s) = (r, p)" by force
  then have "txlog p = txlog (port s)" using waitloop_txlog [of "port s"] by simp
  with w show ?thesis by (simp add: waitACKNACK_def)
qed

lemma flush_write_ok:
  assumes "accepts (port s) n" and "length cmd = n" and "0 < n"
    and "flush_write cmd s = (res, s1)"
  shows "res = int n \<and> txlog (port s1) = txlog (port s) @ cmd"
  using assms
  by (auto simp: flush_write_def accepts_def COMPORT_Flush_def COMPORT_Write_def
           split: list.splits option.splits)

lemma scanACKNACK_result: "scanACKNACK msg = Some r \<Longrightarrow> r = 0 \<or> r = 1"
  by (induction msg) (auto split: if_splits)

lemma waitloop_result: "fst (waitloop p) \<in> {-1, 0, 1, 2}"
proof (induction p rule: waitloop.induct)
  case (1 p)
  obtain r p' where rd: "COMPORT_Read p 4 = (r, p')" by (cases "COMPORT_Read p 4")
  show ?case
  proof (cases r)
    case None
    with rd show ?thesis by (subst waitloop.simps) simp
  next
    case (Some msg)
    show ?thesis
    proof (cases "scanACKNACK msg")
      case (Some a)
      then have "a = 0 \<or> a = 1" by (rule scanACKNACK_result)
      with rd \<open>r = Some msg\<close> Some show ?thesis
        by (subst waitloop.simps) auto
    next
      case None
      show ?thesis
      proof (cases "deadline p")
        case True
        with rd \<open>r = Some msg\<close> None show ?thesis by (subst waitloop.simps) simp
      next
        case False
        have "waitloop p = waitloop p'"
          using False rd Some None by (subst waitloop.simps) simp
        then show ?thesis
          using "1.IH" [OF rd [symmetric] Some None False] by simp
      qed
    qed
  qed
qed

lemma waitACKNACK_frame:
  assumes "waitACKNACK t s = (w, s1)"
  shows "s1 = s\<lparr>port := port s1, errmsg := errmsg s1\<rparr>"
    and "fd (port s1) = fd (port s)"
    and "txlog (port s1) = txlog (port s)"
    and "w \<in> {-1, 0, 1, 2}"
proof -
  obtain r p where wl: "waitloop (port s) = (r, p)" by force
  have "fd p = fd (port s)" "txlog p = txlog (port s)" "r \<in> {-1, 0, 1, 2}"
    using waitloop_fd [of "port s"] waitloop_txlog [of "port s"] waitloop_result [of "port s"] wl
    by simp_all
  with assms wl show "s1 = s\<lparr>port := port s1, errmsg := errmsg s1\<rparr>"
    and "fd (port s1) = fd (port s)"
    and "txlog (port s1) = txlog (port s)"
    and "w \<in> {-1, 0, 1, 2}"
    by (auto simp: waitACKNACK_def)
qed

lemma waitACKNACK_calls:
  "waitACKNACK t s = (w, s1) \<Longrightarrow> calls s1 = calls s"
  by (auto simp: waitACKNACK_def split: prod.splits)


lemma flush_write_calls: "flush_write cmd s = (res, s1) \<Longrightarrow> calls s1 = calls s"
  by (auto simp: flush_write_def split: prod.splits)

lemma SetBaud_calls: "calls (snd (SetBaud code speed s)) = calls s"
proof -
  show ?thesis
    unfolding SetBaud_def
    by (auto split: prod.splits option.splits DBAUD.splits if_splits
             dest!: waitACKNACK_calls flush_write_calls)
qed

lemma COMPORT_Close_closed: "\<not> COMPORT_IsOpen (snd (COMPORT_Close p))"
  by (simp add: COMPORT_Close_def COMPORT_IsOpen_def)

section \<open>One iteration of the worker, by its outcome\<close>

lemma COMPORT_Read_fd: "COMPORT_Read p n = (r, p') \<Longrightarrow> fd p' = fd p"
  by (auto simp: COMPORT_Read_def split: if_splits list.splits rdres.splits)

lemma Process_wait:
  assumes "\<not> halt s" and "state s = LCD_BUSY"
    and "curcmd s = PG_SLEEP \<or> curcmd s = PG_TOUCH_WAIT"
    and wa: "waitACKNACK 200 s = (w, s1)"
  shows "fst (Process s) = 0"
    and "w = 0 \<Longrightarrow> completes s True (snd (Process s))"
    and "w = 1 \<or> w = -1 \<Longrightarrow> completes s False (snd (Process s))"
    and "w = 2 \<Longrightarrow> stays_busy s (snd (Process s)) \<and> brcv (snd (Process s)) = brcv s"
proof -
  note fr = waitACKNACK_frame [OF wa]
  have op: "COMPORT_IsOpen (port s1) = COMPORT_IsOpen (port s)"
    using fr(2) by (simp add: COMPORT_IsOpen_def)
  have s1: "curcmd s1 = curcmd s" "curdata s1 = curdata s" "state s1 = state s"
     "calls s1 = calls s" "callback s1 = callback s" "usrobj s1 = usrobj s" "brcv s1 = brcv s"
    by (subst fr(1), simp)+
  have P: "Process s =
      (if w = 0 then
         (0, invoke (s1\<lparr>curcmd := PG_NONE, state := LCD_IDLE\<rparr>) (curcmd s) True)
       else if w = 1 then
         (0, invoke (s1\<lparr>errmsg := ''NACK'', curcmd := PG_NONE,
                       state := LCD_IDLE\<rparr>) (curcmd s) False)
       else if w = -1 then
         (0, invoke (s1\<lparr>curcmd := PG_NONE, state := LCD_IDLE\<rparr>) (curcmd s) False)
       else if w = 2 then (0, s1)
       else
         (0, invoke (s1\<lparr>errmsg := ''unexpected return from waitACKNACK (only 0,1,2,-1 accepted)'',
                       curcmd := PG_NONE, state := LCD_IDLE\<rparr>) (curcmd s) False))"
    using assms(1,2,3) wa unfolding Process_def Process_await_def by (auto simp: Let_def)
  show "fst (Process s) = 0" unfolding P by simp
  show "w = 0 \<Longrightarrow> completes s True (snd (Process s))"
    unfolding P completes_def using s1 op assms(2) by (simp add: invoke_def split: option.split)
  show "w = 1 \<or> w = -1 \<Longrightarrow> completes s False (snd (Process s))"
    unfolding P completes_def using s1 op assms(2) by (auto simp: invoke_def split: option.split)
  show "w = 2 \<Longrightarrow> stays_busy s (snd (Process s)) \<and> brcv (snd (Process s)) = brcv s"
    unfolding P stays_busy_def using s1 assms(2) by simp
qed

lemma Process_touch:
  assumes "\<not> halt s" and "state s = LCD_BUSY" and "curcmd s = PG_TOUCH_DATA"
    and rd: "COMPORT_Read (port s) (4 - brcv s) = (r, p)"
  shows "fst (Process s) = 0"
    and "r = None \<Longrightarrow> completes s False (snd (Process s))"
    and "r = Some [] \<Longrightarrow> stays_busy s (snd (Process s)) \<and> brcv (snd (Process s)) = brcv s"
    and "r = Some bytes \<Longrightarrow> bytes \<noteq> [] \<Longrightarrow> brcv s + int (length bytes) = 4
           \<Longrightarrow> completes s (curdata s \<noteq> None) (snd (Process s))"
    and "r = Some bytes \<Longrightarrow> bytes \<noteq> [] \<Longrightarrow> brcv s + int (length bytes) \<noteq> 4
           \<Longrightarrow> stays_busy s (snd (Process s))
               \<and> brcv (snd (Process s)) = brcv s + int (length bytes)"
proof -
  have op: "COMPORT_IsOpen p = COMPORT_IsOpen (port s)"
    using COMPORT_Read_fd [OF rd] by (simp add: COMPORT_IsOpen_def)
  show "fst (Process s) = 0"
    using assms unfolding Process_def Process_await_def Process_data_def
    by (auto simp: Let_def split: option.splits)
  show "r = None \<Longrightarrow> completes s False (snd (Process s))"
    using assms op unfolding Process_def Process_data_def completes_def
    by (simp add: Let_def invoke_def split: option.split)
  show "r = Some [] \<Longrightarrow> stays_busy s (snd (Process s)) \<and> brcv (snd (Process s)) = brcv s"
    using assms unfolding Process_def Process_data_def stays_busy_def
    by (simp add: Let_def)
  show "r = Some bytes \<Longrightarrow> bytes \<noteq> [] \<Longrightarrow> brcv s + int (length bytes) = 4
           \<Longrightarrow> completes s (curdata s \<noteq> None) (snd (Process s))"
    using assms op unfolding Process_def Process_data_def completes_def
    by (auto simp: Let_def invoke_def split: option.split)
  show "r = Some bytes \<Longrightarrow> bytes \<noteq> [] \<Longrightarrow> brcv s + int (length bytes) \<noteq> 4
           \<Longrightarrow> stays_busy s (snd (Process s))
               \<and> brcv (snd (Process s)) = brcv s + int (length bytes)"
    using assms unfolding Process_def Process_data_def stays_busy_def
    by (simp add: Let_def)
qed

section \<open>The example controllers\<close>

lemma connected_simps:
  "calls (connected rx) = []" "state (connected rx) = LCD_IDLE" "\<not> halt (connected rx)"
  "COMPORT_IsOpen (port (connected rx))" "txlog (port (connected rx)) = []"
  "accepts (port (connected rx)) n" "callback (connected rx) = None"
  "curcmd (connected rx) = PG_NONE"
  by (simp_all add: connected_def PGD_new_def COMPORT_new_def COMPORT_IsOpen_def accepts_def)

section \<open>Properties of the commands\<close>

text \<open>C5. In the Idle state, with a port that takes the eleven bytes,
  \<open>Rectangle(x1=10, y1=20, x2=100, y2=200, color=0xF800)\<close> puts exactly
  \<open>72 00 0A 00 14 00 64 00 C8 F8 00\<close> on the wire: the opcode \<open>'r'\<close> and the five
  arguments as big-endian 16-bit values.\<close>

theorem Rectangle_wire_bytes:
  assumes "state s = LCD_IDLE" and "accepts (port s) 11"
  shows "txlog (port (snd (Rectangle 10 20 100 200 0xF800 s)))
           = txlog (port s) @ [0x72, 0x00, 0x0A, 0x00, 0x14, 0x00, 0x64, 0x00, 0xC8, 0xF8, 0x00]"
proof -
  let ?cmd = "[0x72, 0x00, 0x0A, 0x00, 0x14, 0x00, 0x64, 0x00, 0xC8, 0xF8, 0x00] :: uchar list"
  obtain res s1 where fw: "flush_write ?cmd s = (res, s1)" by force
  have "res = 11" and "txlog (port s1) = txlog (port s) @ ?cmd"
    using flush_write_ok [OF assms(2) _ _ fw] by simp_all
  then show ?thesis
    using assms fw by (simp add: Rectangle_def hi8_def lo8_def waitACKNACK_txlog)
qed

text \<open>C5, at the connected controller of the examples with an empty wire.\<close>

theorem Rectangle_wire_bytes_witness:
  "state (connected []) = LCD_IDLE \<and> accepts (port (connected [])) 11
   \<and> txlog (port (snd (Rectangle 10 20 100 200 0xF800 (connected []))))
       = [0x72, 0x00, 0x0A, 0x00, 0x14, 0x00, 0x64, 0x00, 0xC8, 0xF8, 0x00]"
proof -
  have h1: "state (connected []) = LCD_IDLE"
    by (simp add: connected_def PGD_new_def)
  have h2: "accepts (port (connected [])) 11"
    by (simp add: connected_def PGD_new_def COMPORT_new_def accepts_def)
  have "txlog (port (connected [])) = []"
    by (simp add: connected_def PGD_new_def COMPORT_new_def)
  with h1 h2 Rectangle_wire_bytes [OF h1 h2] show ?thesis by simp
qed

text \<open>C6. \<open>convertRes\<close> maps the eight documented resolution codes to their pixel
  counts and every other byte to 0.\<close>

theorem convertRes_table:
  "convertRes 0x22 = 220 \<and> convertRes 0x24 = 240 \<and> convertRes 0x28 = 128
   \<and> convertRes 0x32 = 320 \<and> convertRes 0x60 = 160 \<and> convertRes 0x64 = 64
   \<and> convertRes 0x76 = 176 \<and> convertRes 0x96 = 96
   \<and> (b \<notin> {0x22, 0x24, 0x28, 0x32, 0x60, 0x64, 0x76, 0x96} \<longrightarrow> convertRes b = 0)"
  by (simp add: convertRes_def)

text \<open>C6, at the undocumented code \<open>0x10\<close>.\<close>

theorem convertRes_table_witness:
  "(0x10 :: uchar) \<notin> {0x22, 0x24, 0x28, 0x32, 0x60, 0x64, 0x76, 0x96} \<and> convertRes 0x10 = 0"
  using convertRes_table [of "0x10"] by simp

text \<open>C7. For a value outside the valid set \<open>{0..3, 8..127, 253..255}\<close>
  \<open>SetVolume\<close> returns \<open>-1\<close> and leaves the port as it was, whatever the state. In
  the Idle state, with a port that takes the two bytes, a value of the valid set makes
  the bytes \<open>'v'\<close>, value go out, and the call fails with nothing sent exactly for the
  values 4..7 and 128..252.\<close>

theorem SetVolume_validation:
  "(unat val \<notin> {0..3} \<union> {8..127} \<union> {253..255}
      \<longrightarrow> fst (SetVolume val s) = -1 \<and> port (snd (SetVolume val s)) = port s)
   \<and> (state s = LCD_IDLE \<and> accepts (port s) 2 \<longrightarrow>
        (unat val \<in> {0..3} \<union> {8..127} \<union> {253..255}
           \<longrightarrow> txlog (port (snd (SetVolume val s))) = txlog (port s) @ [0x76, val])
        \<and> ((fst (SetVolume val s) < 0
               \<and> txlog (port (snd (SetVolume val s))) = txlog (port s))
             \<longleftrightarrow> unat val \<in> {4..7} \<union> {128..252}))"
proof -
  have u: "uint val = int (unat val)" by (rule uint_nat)
  have bound: "unat val < 256" using unsigned_less [of val] by simp
  let ?bad = "uint val < 0 \<or> uint val > 0xff \<or> (uint val > 3 \<and> uint val < 8)
                \<or> (uint val > 127 \<and> uint val < 0xfd)"
  have key: "\<And>n::nat. n < 256 \<Longrightarrow>
      (int n < 0 \<or> int n > 0xff \<or> (int n > 3 \<and> int n < 8) \<or> (int n > 127 \<and> int n < 0xfd))
        \<longleftrightarrow> n \<in> {4..7} \<union> {128..252}"
    by auto
  define G where "G \<longleftrightarrow> unat val \<in> {0..3} \<union> {8..127} \<union> {253..255}"
  define B where "B \<longleftrightarrow> unat val \<in> {4..7} \<union> {128..252}"
  have badB: "?bad \<longleftrightarrow> B"
    unfolding B_def using key [OF bound] by (simp only: u)
  have GB: "G \<longleftrightarrow> \<not> B"
    unfolding G_def B_def using bound by auto
  have reject: "fst (SetVolume val s) = -1 \<and> port (snd (SetVolume val s)) = port s" if B
  proof -
    from that badB have bad: ?bad by blast
    show ?thesis
      unfolding SetVolume_def by (simp only: if_P [OF bad]) simp
  qed
  have send: "txlog (port (snd (SetVolume val s))) = txlog (port s) @ [0x76, val]"
    if G and idle: "state s = LCD_IDLE" and acc: "accepts (port s) 2"
  proof -
    from that GB badB have good: "\<not> ?bad" by blast
    obtain res s1 where fw: "flush_write [0x76, val] s = (res, s1)" by force
    have ok: "res = 2" "txlog (port s1) = txlog (port s) @ [0x76, val]"
      using flush_write_ok [OF acc _ _ fw] by simp_all
    have "SetVolume val s = waitACKNACK 100 s1"
      unfolding SetVolume_def using idle fw ok(1) by (simp only: if_not_P [OF good]) simp
    then show ?thesis using ok(2) by (simp add: waitACKNACK_txlog)
  qed
  have "(\<not> G \<longrightarrow> fst (SetVolume val s) = -1 \<and> port (snd (SetVolume val s)) = port s)
   \<and> (state s = LCD_IDLE \<and> accepts (port s) 2 \<longrightarrow>
        (G \<longrightarrow> txlog (port (snd (SetVolume val s))) = txlog (port s) @ [0x76, val])
        \<and> ((fst (SetVolume val s) < 0
               \<and> txlog (port (snd (SetVolume val s))) = txlog (port s))
             \<longleftrightarrow> B))"
  proof (cases B)
    case True
    from reject [OF True] have "fst (SetVolume val s) < 0"
      and "txlog (port (snd (SetVolume val s))) = txlog (port s)" by simp_all
    with True GB reject [OF True] show ?thesis by blast
  next
    case False
    with GB have G by blast
    have "txlog (port (snd (SetVolume val s))) \<noteq> txlog (port s)"
      if "state s = LCD_IDLE" and "accepts (port s) 2"
      using send [OF \<open>G\<close> that] by simp
    with False \<open>G\<close> send [OF \<open>G\<close>] show ?thesis by blast
  qed
  then show ?thesis unfolding G_def B_def .
qed

text \<open>C7, at the forbidden value 5 and at the valid value 16.\<close>

theorem SetVolume_validation_witness:
  "unat (5 :: uchar) \<notin> {0..3} \<union> {8..127} \<union> {253..255}
   \<and> fst (SetVolume 5 (connected [])) = -1
   \<and> port (snd (SetVolume 5 (connected []))) = port (connected [])
   \<and> state (connected []) = LCD_IDLE \<and> accepts (port (connected [])) 2
   \<and> unat (16 :: uchar) \<in> {0..3} \<union> {8..127} \<union> {253..255}
   \<and> txlog (port (snd (SetVolume 16 (connected [])))) = [0x76, 16]"
  using SetVolume_validation [of 5 "connected []"] SetVolume_validation [of 16 "connected []"]
  by (simp add: connected_simps)

text \<open>C9. In the Idle state, with a port that takes the three bytes: \<open>Suspend\<close> returns
  \<open>-1\<close> and leaves the port as it was when \<open>options\<close> has bit 4 (\<open>0x10\<close>) set or when
  \<open>options & 0x2f\<close> is \<open>0x22\<close>; all other options are framed as \<open>'Z'\<close>, options,
  duration and sent.\<close>

theorem Suspend_validation:
  assumes "state s = LCD_IDLE" and "accepts (port s) 3"
  shows "(options AND 0x10 \<noteq> 0 \<or> options AND 0x2f = 0x22
            \<longrightarrow> fst (Suspend options duration s) = -1
                \<and> port (snd (Suspend options duration s)) = port s)
       \<and> (\<not> (options AND 0x10 \<noteq> 0 \<or> options AND 0x2f = 0x22)
            \<longrightarrow> txlog (port (snd (Suspend options duration s)))
                  = txlog (port s) @ [0x5A, options, duration])"
proof (cases "options AND 0x10 \<noteq> 0 \<or> options AND 0x2f = 0x22")
  case True
  have "fst (Suspend options duration s) = -1 \<and> port (snd (Suspend options duration s)) = port s"
  proof (cases "options AND 0x10 \<noteq> 0")
    case True
    then show ?thesis using assms(1) unfolding Suspend_def by simp
  next
    case False
    with \<open>options AND 0x10 \<noteq> 0 \<or> options AND 0x2f = 0x22\<close>
    have "options AND 0x2f = 0x22" by blast
    with False show ?thesis using assms(1) unfolding Suspend_def by simp
  qed
  with True show ?thesis by blast
next
  case False
  obtain res s1 where fw: "flush_write [0x5A, options, duration] s = (res, s1)" by force
  have ok: "res = 3" "txlog (port s1) = txlog (port s) @ [0x5A, options, duration]"
    using flush_write_ok [OF assms(2) _ _ fw] by simp_all
  obtain w s2 where wa: "waitACKNACK 100 s1 = (w, s2)" by force
  have tx: "txlog (port s2) = txlog (port s1)"
    using waitACKNACK_txlog [of 100 s1] wa by simp
  from False have n1: "\<not> options AND 0x10 \<noteq> 0" and n2: "options AND 0x2f \<noteq> 0x22"
    by blast+
  have "Suspend options duration s =
          (if w = 0 then (0, s2)
           else if w = 1 then (1, s2)
           else if w = 2 then
             (2, if options AND 0x0f \<noteq> 0
                 then s2\<lparr>curcmd := PG_SLEEP, curdata := None, state := LCD_BUSY\<rparr>
                 else s2)
           else (-1, s2))"
    unfolding Suspend_def using assms(1) n1 n2 fw ok(1) wa by simp
  then have "txlog (port (snd (Suspend options duration s))) = txlog (port s2)"
    by simp
  with tx ok(2) False show ?thesis by simp
qed

text \<open>C9, at the rejected options \<open>0x10\<close> and \<open>0x22\<close> and the accepted option \<open>0x01\<close>.\<close>

theorem Suspend_validation_witness:
  "state (connected []) = LCD_IDLE \<and> accepts (port (connected [])) 3
   \<and> (0x10 :: uchar) AND 0x10 \<noteq> 0
   \<and> fst (Suspend 0x10 7 (connected [])) = -1
   \<and> port (snd (Suspend 0x10 7 (connected []))) = port (connected [])
   \<and> (0x22 :: uchar) AND 0x2f = 0x22
   \<and> fst (Suspend 0x22 7 (connected [])) = -1
   \<and> \<not> ((0x01 :: uchar) AND 0x10 \<noteq> 0 \<or> (0x01 :: uchar) AND 0x2f = 0x22)
   \<and> txlog (port (snd (Suspend 0x01 7 (connected [])))) = [0x5A, 0x01, 7]"
proof -
  have h1: "state (connected []) = LCD_IDLE"
    by (simp add: connected_def PGD_new_def)
  have h2: "accepts (port (connected [])) 3"
    by (simp add: connected_def PGD_new_def COMPORT_new_def accepts_def)
  have tx: "txlog (port (connected [])) = []"
    by (simp add: connected_def PGD_new_def COMPORT_new_def)
  show ?thesis
    using h1 h2 tx Suspend_validation [OF h1 h2, of "0x10" 7]
      Suspend_validation [OF h1 h2, of "0x22" 7] Suspend_validation [OF h1 h2, of "0x01" 7]
    by simp
qed

text \<open>C10. In the Idle state, \<open>ShowString\<close>, \<open>ScaleString\<close> and \<open>Button\<close> called with
  a non-null empty string return 0 at once: the controller and its port, and so the
  bytes sent, are what they were.\<close>

theorem empty_string_returns_at_once:
  assumes "state s = LCD_IDLE" and "strlen str = 0"
  shows "ShowString col row font color (Some str) s = (0, s)
       \<and> ScaleString x y font color width height (Some str) s = (0, s)
       \<and> Button pressed x y bcolor font tcolor xmul ymul (Some str) s = (0, s)"
  using assms by (simp add: ShowString_def ScaleString_def Button_def)

text \<open>C10, at the empty string and the connected controller of the examples.\<close>

theorem empty_string_returns_at_once_witness:
  "state (connected []) = LCD_IDLE \<and> strlen [] = 0
   \<and> ShowString 1 2 0 0xFFFF (Some []) (connected []) = (0, connected [])
   \<and> ScaleString 10 20 0 0xFFFF 2 2 (Some []) (connected []) = (0, connected [])
   \<and> Button True 10 20 0x001F 0 0xFFFF 1 1 (Some []) (connected []) = (0, connected [])"
proof -
  have h1: "state (connected []) = LCD_IDLE"
    by (simp add: connected_def PGD_new_def)
  have h2: "strlen [] = 0" by (simp add: strlen_def)
  show ?thesis
    using h1 h2
      empty_string_returns_at_once [OF h1 h2, of 1 2 0 "0xFFFF" 10 20 2 2 True "0x001F" "0xFFFF" 1 1]
    by simp
qed

text \<open>C8, as the claim states it, fails: on a freshly constructed controller, which is
  Inactive, \<open>SetCallback\<close> returns 0 and stores the handler.\<close>

theorem SetCallback_inactive_counterexample:
  "state PGD_new = LCD_INACTIVE
   \<and> fst (SetCallback (Some 1) (Some 2) PGD_new) = 0
   \<and> callback (snd (SetCallback (Some 1) (Some 2) PGD_new)) = Some 1
   \<and> callback PGD_new = None"
  by (simp add: SetCallback_def PGD_new_def)

text \<open>C8, amended. \<open>SetCallback\<close> stores the handler and the user context and returns
  0 whenever the controller is not Busy (Idle or Inactive); when it is Busy the call
  returns \<open>-1\<close> and the stored handler and context are unchanged.\<close>

theorem SetCallback_not_busy:
  "(state s \<noteq> LCD_BUSY \<longrightarrow>
      fst (SetCallback cb obj s) = 0
      \<and> callback (snd (SetCallback cb obj s)) = cb
      \<and> usrobj (snd (SetCallback cb obj s)) = obj)
   \<and> (state s = LCD_BUSY \<longrightarrow>
      fst (SetCallback cb obj s) = -1
      \<and> callback (snd (SetCallback cb obj s)) = callback s
      \<and> usrobj (snd (SetCallback cb obj s)) = usrobj s)"
  by (simp add: SetCallback_def)

text \<open>C8 amended, at an idle controller and at one that waits for a touch.\<close>

theorem SetCallback_not_busy_witness:
  "state (connected []) \<noteq> LCD_BUSY
   \<and> fst (SetCallback (Some 1) (Some 2) (connected [])) = 0
   \<and> callback (snd (SetCallback (Some 1) (Some 2) (connected []))) = Some 1
   \<and> state ((connected [])\<lparr>state := LCD_BUSY, curcmd := PG_TOUCH_WAIT\<rparr>) = LCD_BUSY
   \<and> fst (SetCallback (Some 1) (Some 2)
             ((connected [])\<lparr>state := LCD_BUSY, curcmd := PG_TOUCH_WAIT\<rparr>)) = -1
   \<and> callback (snd (SetCallback (Some 1) (Some 2)
             ((connected [])\<lparr>state := LCD_BUSY, curcmd := PG_TOUCH_WAIT\<rparr>))) = None"
  using SetCallback_not_busy [of "connected []" "Some 1" "Some 2"]
    SetCallback_not_busy [of "(connected [])\<lparr>state := LCD_BUSY, curcmd := PG_TOUCH_WAIT\<rparr>"
                             "Some 1" "Some 2"]
  by (simp add: connected_def PGD_new_def)

section \<open>Shutdown and the worker\<close>

text \<open>What \<open>Close\<close> has done to a Busy controller when it reaches the join, and
  what the join adds, by the place of the worker.\<close>

lemma waitloop_closed: "fd p = -1 \<Longrightarrow> waitloop p = (-1, p)"
  by (subst waitloop.simps) (simp add: COMPORT_Read_def)

lemma procthread_halt: "halt s \<Longrightarrow> procthread s = Some s"
  by (subst procthread.simps) (simp add: Process_def)

lemma waitACKNACK_keeps:
  "waitACKNACK t s = (w, s1) \<Longrightarrow>
     halt s1 = halt s \<and> callback s1 = callback s \<and> usrobj s1 = usrobj s
     \<and> state s1 = state s \<and> curcmd s1 = curcmd s"
  by (auto simp: waitACKNACK_def split: prod.splits)

lemma flush_write_keeps:
  "flush_write cmd s = (res, s1) \<Longrightarrow>
     halt s1 = halt s \<and> callback s1 = callback s \<and> usrobj s1 = usrobj s
     \<and> state s1 = state s \<and> curcmd s1 = curcmd s"
  by (auto simp: flush_write_def split: prod.splits)

lemma SetBaud_keeps:
  "halt (snd (SetBaud code speed s)) = halt s
   \<and> callback (snd (SetBaud code speed s)) = callback s
   \<and> usrobj (snd (SetBaud code speed s)) = usrobj s
   \<and> state (snd (SetBaud code speed s)) = state s
   \<and> curcmd (snd (SetBaud code speed s)) = curcmd s"
  unfolding SetBaud_def
  by (auto split: prod.splits option.splits DBAUD.splits if_splits
           dest!: waitACKNACK_keeps flush_write_keeps)

lemma waitACKNACK_closed:
  assumes "\<not> COMPORT_IsOpen (port s)"
  shows "waitACKNACK t s = (-1, s\<lparr>errmsg := ''failed (see message below)''\<rparr>)"
proof -
  from assms have "fd (port s) = -1" by (simp add: COMPORT_IsOpen_def)
  then have "waitloop (port s) = (-1, port s)" by (rule waitloop_closed)
  then show ?thesis by (simp add: waitACKNACK_def)
qed

lemma Close_before_join:
  assumes "state s = LCD_BUSY" and "COMPORT_IsOpen (port s)"
  shows "\<exists>s4. Close code w s = pthread_join w s4
           \<and> halt s4 \<and> state s4 = LCD_INACTIVE \<and> \<not> COMPORT_IsOpen (port s4)
           \<and> callback s4 = callback s \<and> usrobj s4 = usrobj s \<and> curcmd s4 = PG_NONE
           \<and> calls s4 = calls s @ (case callback s of
                          None \<Rightarrow> []
                        | Some f \<Rightarrow> [Callback f (curcmd s) False (usrobj s) LCD_IDLE PG_NONE True])"
proof -
  let ?s1 = "s\<lparr>errmsg := [], halt := True\<rparr>"
  let ?s2 = "invoke (?s1\<lparr>errmsg := ''port is closing'', curcmd := PG_NONE,
                          curdata := None, state := LCD_IDLE\<rparr>) (curcmd s) False"
  let ?s3 = "snd (SetBaud code DB_9600 ?s2)"
  let ?s4 = "?s3\<lparr>port := snd (COMPORT_Close (port ?s3)), state := LCD_INACTIVE\<rparr>"
  have st2: "state ?s2 = LCD_IDLE" "halt ?s2" "callback ?s2 = callback s"
    "usrobj ?s2 = usrobj s" "curcmd ?s2 = PG_NONE"
    by (simp_all add: invoke_def split: option.split)
  have c2: "calls ?s2 = calls s @ (case callback s of
                          None \<Rightarrow> []
                        | Some f \<Rightarrow> [Callback f (curcmd s) False (usrobj s) LCD_IDLE PG_NONE True])"
    using assms(2) by (simp add: invoke_def split: option.split)
  have eq: "Close code w s = pthread_join w ?s4"
    unfolding Close_def using assms st2(1) by (simp add: Let_def)
  have k: "halt ?s3" "callback ?s3 = callback s" "usrobj ?s3 = usrobj s" "curcmd ?s3 = PG_NONE"
    using SetBaud_keeps [of code DB_9600 ?s2] st2 by simp_all
  have c3: "calls ?s3 = calls ?s2" by (rule SetBaud_calls)
  show ?thesis
    apply (rule exI [of _ ?s4])
    using eq k c3 c2 by (simp add: COMPORT_Close_closed)
qed

lemma Close_joins_resting_worker:
  assumes "state s = LCD_BUSY" and "COMPORT_IsOpen (port s)" and "w = NoThread \<or> w = AtLoop"
  shows "\<exists>s'. Close code w s = Some s'
           \<and> state s' = LCD_INACTIVE \<and> \<not> COMPORT_IsOpen (port s')
           \<and> calls s' = calls s @ (case callback s of
                          None \<Rightarrow> []
                        | Some f \<Rightarrow> [Callback f (curcmd s) False (usrobj s) LCD_IDLE PG_NONE True])"
proof -
  from Close_before_join [OF assms(1,2), of code w] obtain s4 where
    s4: "Close code w s = pthread_join w s4" "halt s4" "state s4 = LCD_INACTIVE"
      "\<not> COMPORT_IsOpen (port s4)"
      "calls s4 = calls s @ (case callback s of
                          None \<Rightarrow> []
                        | Some f \<Rightarrow> [Callback f (curcmd s) False (usrobj s) LCD_IDLE PG_NONE True])"
    by blast
  have "pthread_join w s4 = Some s4"
    using assms(3) procthread_halt [OF s4(2)] by (auto simp: pthread_join_def)
  with s4 show ?thesis by simp
qed

lemma Close_joins_waiting_worker:
  assumes "state s = LCD_BUSY" and "COMPORT_IsOpen (port s)"
  shows "\<exists>s'. Close code (InWait tmpcmd) s = Some s'
           \<and> state s' = LCD_IDLE \<and> \<not> COMPORT_IsOpen (port s')
           \<and> calls s' = calls s @ (case callback s of
                          None \<Rightarrow> []
                        | Some f \<Rightarrow>
                            [Callback f (curcmd s) False (usrobj s) LCD_IDLE PG_NONE True,
                             Callback f tmpcmd False (usrobj s) LCD_IDLE PG_NONE False])"
proof -
  from Close_before_join [OF assms, of code "InWait tmpcmd"] obtain s4 where
    s4: "Close code (InWait tmpcmd) s = pthread_join (InWait tmpcmd) s4" "halt s4"
      "state s4 = LCD_INACTIVE" "\<not> COMPORT_IsOpen (port s4)"
      "callback s4 = callback s" "usrobj s4 = usrobj s" "curcmd s4 = PG_NONE"
      "calls s4 = calls s @ (case callback s of
                          None \<Rightarrow> []
                        | Some f \<Rightarrow> [Callback f (curcmd s) False (usrobj s) LCD_IDLE PG_NONE True])"
    by blast
  let ?s5 = "snd (Process_await tmpcmd s4)"
  have p: "Process_await tmpcmd s4 =
             (0, invoke (s4\<lparr>errmsg := ''failed (see message below)'',
                            curcmd := PG_NONE, state := LCD_IDLE\<rparr>) tmpcmd False)"
    unfolding Process_await_def by (simp add: waitACKNACK_closed [OF s4(4)])
  have s5: "halt ?s5" "state ?s5 = LCD_IDLE" "\<not> COMPORT_IsOpen (port ?s5)"
    using s4(2,4) unfolding p by (simp_all add: invoke_def split: option.split)
  have c5: "calls ?s5 = calls s @ (case callback s of
                          None \<Rightarrow> []
                        | Some f \<Rightarrow>
                            [Callback f (curcmd s) False (usrobj s) LCD_IDLE PG_NONE True,
                             Callback f tmpcmd False (usrobj s) LCD_IDLE PG_NONE False])"
    using s4(4,5,6,7,8) unfolding p by (simp add: invoke_def split: option.split)
  have "pthread_join (InWait tmpcmd) s4 = Some ?s5"
    using procthread_halt [OF s5(1)] by (simp add: pthread_join_def)
  with s4(1) s5 c5 show ?thesis by simp
qed

text \<open>C3. \<open>Close\<close> on a controller that waits for a touch (\<open>WaitTouch\<close> has returned
  2), with a handler registered and the worker inside \<open>waitACKNACK(200)\<close>. The handler
  is invoked with \<open>success = false\<close> while the port is still open. The joined worker
  then finds the port closed, takes the \<open>-1\<close> branch of \<open>Process\<close>, sets the state to
  Idle after \<open>Close\<close> has set it to Inactive, and invokes the handler a second time,
  with the port closed. When \<open>Close\<close> returns the state is Idle, not Inactive.\<close>

theorem Close_joined_worker_leaves_idle:
  "map_option state
     (Close (\<lambda>b. 0x06) (InWait PG_TOUCH_WAIT)
        ((connected [])\<lparr>state := LCD_BUSY, curcmd := PG_TOUCH_WAIT,
                        callback := Some 1, usrobj := Some 2\<rparr>)) = Some LCD_IDLE
   \<and> map_option calls
     (Close (\<lambda>b. 0x06) (InWait PG_TOUCH_WAIT)
        ((connected [])\<lparr>state := LCD_BUSY, curcmd := PG_TOUCH_WAIT,
                        callback := Some 1, usrobj := Some 2\<rparr>))
       = Some [Callback 1 PG_TOUCH_WAIT False (Some 2) LCD_IDLE PG_NONE True,
               Callback 1 PG_TOUCH_WAIT False (Some 2) LCD_IDLE PG_NONE False]
   \<and> map_option (\<lambda>s. COMPORT_IsOpen (port s))
     (Close (\<lambda>b. 0x06) (InWait PG_TOUCH_WAIT)
        ((connected [])\<lparr>state := LCD_BUSY, curcmd := PG_TOUCH_WAIT,
                        callback := Some 1, usrobj := Some 2\<rparr>)) = Some False"
proof -
  let ?s = "(connected [])\<lparr>state := LCD_BUSY, curcmd := PG_TOUCH_WAIT,
                           callback := Some 1, usrobj := Some 2\<rparr>"
  have h1: "state ?s = LCD_BUSY" by simp
  have h2: "COMPORT_IsOpen (port ?s)" by (simp add: connected_simps)
  from Close_joins_waiting_worker [OF h1 h2, of "\<lambda>b. 0x06" PG_TOUCH_WAIT]
  obtain s' where "Close (\<lambda>b. 0x06) (InWait PG_TOUCH_WAIT) ?s = Some s'"
    and "state s' = LCD_IDLE" and "\<not> COMPORT_IsOpen (port s')"
    and "calls s' = [Callback 1 PG_TOUCH_WAIT False (Some 2) LCD_IDLE PG_NONE True,
                     Callback 1 PG_TOUCH_WAIT False (Some 2) LCD_IDLE PG_NONE False]"
    by (auto simp: connected_simps)
  then show ?thesis by simp
qed

text \<open>C4. One iteration of \<open>Process\<close> on a Busy controller returns 0. For \<open>PG_SLEEP\<close>
  and \<open>PG_TOUCH_WAIT\<close> it completes the command with success on ACK and with failure
  on NACK and on an I/O error, and stays busy on a timeout. For \<open>PG_TOUCH_DATA\<close> it
  completes with failure on an I/O error, completes when the fourth byte has arrived
  (with success unless the data pointer is null), and stays busy otherwise, with the
  byte count unchanged when nothing arrived. To complete is to clear the tag and to set
  the state to Idle before the handler is invoked.\<close>

theorem Process_clears_before_callback:
  assumes "\<not> halt s" and "state s = LCD_BUSY"
  shows "fst (Process s) = 0
     \<and> (curcmd s = PG_SLEEP \<or> curcmd s = PG_TOUCH_WAIT \<longrightarrow>
          fst (waitACKNACK 200 s) \<in> {-1, 0, 1, 2}
          \<and> (fst (waitACKNACK 200 s) = 0 \<longrightarrow> completes s True (snd (Process s)))
          \<and> (fst (waitACKNACK 200 s) = 1 \<or> fst (waitACKNACK 200 s) = -1
                \<longrightarrow> completes s False (snd (Process s)))
          \<and> (fst (waitACKNACK 200 s) = 2
                \<longrightarrow> stays_busy s (snd (Process s)) \<and> brcv (snd (Process s)) = brcv s))
     \<and> (curcmd s = PG_TOUCH_DATA \<longrightarrow>
          (case fst (COMPORT_Read (port s) (4 - brcv s)) of
             None \<Rightarrow> completes s False (snd (Process s))
           | Some bytes \<Rightarrow>
               if bytes = [] then
                 stays_busy s (snd (Process s)) \<and> brcv (snd (Process s)) = brcv s
               else if brcv s + int (length bytes) = 4 then
                 completes s (curdata s \<noteq> None) (snd (Process s))
               else
                 stays_busy s (snd (Process s))
                 \<and> brcv (snd (Process s)) = brcv s + int (length bytes)))"
proof (intro conjI impI)
  show "fst (Process s) = 0"
    using assms unfolding Process_def Process_await_def Process_data_def
    by (auto simp: Let_def invoke_def split: PGDCMD.splits prod.splits option.splits)
next
  assume c: "curcmd s = PG_SLEEP \<or> curcmd s = PG_TOUCH_WAIT"
  obtain w s1 where wa: "waitACKNACK 200 s = (w, s1)" by force
  note pw = Process_wait [OF assms c wa]
  show "fst (waitACKNACK 200 s) \<in> {-1, 0, 1, 2}"
    using waitACKNACK_frame(4) [OF wa] wa by simp
  show "completes s True (snd (Process s))" if "fst (waitACKNACK 200 s) = 0"
    using that pw(2) wa by simp
  show "completes s False (snd (Process s))"
    if "fst (waitACKNACK 200 s) = 1 \<or> fst (waitACKNACK 200 s) = -1"
    using that pw(3) wa by simp
  show "stays_busy s (snd (Process s))" and "brcv (snd (Process s)) = brcv s"
    if "fst (waitACKNACK 200 s) = 2"
    using that pw(4) wa by simp_all
next
  assume c: "curcmd s = PG_TOUCH_DATA"
  obtain r p where rd: "COMPORT_Read (port s) (4 - brcv s) = (r, p)" by force
  note pt = Process_touch [OF assms c rd]
  show "case fst (COMPORT_Read (port s) (4 - brcv s)) of
             None \<Rightarrow> completes s False (snd (Process s))
           | Some bytes \<Rightarrow>
               if bytes = [] then
                 stays_busy s (snd (Process s)) \<and> brcv (snd (Process s)) = brcv s
               else if brcv s + int (length bytes) = 4 then
                 completes s (curdata s \<noteq> None) (snd (Process s))
               else
                 stays_busy s (snd (Process s))
                 \<and> brcv (snd (Process s)) = brcv s + int (length bytes)"
  proof (cases r)
    case None
    with pt(2) rd show ?thesis by simp
  next
    case (Some bytes)
    with pt(3) pt(4) [of bytes] pt(5) [of bytes] rd show ?thesis by auto
  qed
qed

text \<open>C4, at a controller that waits for a touch when the device sends ACK.\<close>

theorem Process_clears_before_callback_witness:
  "\<not> halt ((connected [RdData [0x06]])\<lparr>state := LCD_BUSY, curcmd := PG_TOUCH_WAIT,
            callback := Some 1, usrobj := Some 2\<rparr>)
   \<and> state ((connected [RdData [0x06]])\<lparr>state := LCD_BUSY, curcmd := PG_TOUCH_WAIT,
            callback := Some 1, usrobj := Some 2\<rparr>) = LCD_BUSY
   \<and> fst (waitACKNACK 200 ((connected [RdData [0x06]])\<lparr>state := LCD_BUSY,
            curcmd := PG_TOUCH_WAIT, callback := Some 1, usrobj := Some 2\<rparr>)) = 0
   \<and> completes ((connected [RdData [0x06]])\<lparr>state := LCD_BUSY, curcmd := PG_TOUCH_WAIT,
            callback := Some 1, usrobj := Some 2\<rparr>) True
        (snd (Process ((connected [RdData [0x06]])\<lparr>state := LCD_BUSY, curcmd := PG_TOUCH_WAIT,
            callback := Some 1, usrobj := Some 2\<rparr>)))
   \<and> calls (snd (Process ((connected [RdData [0x06]])\<lparr>state := LCD_BUSY,
            curcmd := PG_TOUCH_WAIT, callback := Some 1, usrobj := Some 2\<rparr>)))
       = [Callback 1 PG_TOUCH_WAIT True (Some 2) LCD_IDLE PG_NONE True]"
proof -
  let ?s = "(connected [RdData [0x06]])\<lparr>state := LCD_BUSY, curcmd := PG_TOUCH_WAIT,
            callback := Some 1, usrobj := Some 2\<rparr>"
  have h1: "\<not> halt ?s" by (simp add: connected_simps)
  have h2: "state ?s = LCD_BUSY" by simp
  have w: "fst (waitACKNACK 200 ?s) = 0" by code_simp
  have "completes ?s True (snd (Process ?s))"
    using Process_clears_before_callback [OF h1 h2] w by simp
  moreover from this have "calls (snd (Process ?s)) = [Callback 1 PG_TOUCH_WAIT True (Some 2) LCD_IDLE PG_NONE True]"
    unfolding completes_def by (simp add: connected_simps)
  ultimately show ?thesis using h1 h2 w by simp
qed

section \<open>Memory card commands against their description\<close>

text \<open>C1. \<open>SDWriteFileFAT\<close> of the two bytes \<open>68 69\<close> to the file \<open>A.TXT\<close>: with a
  device that acknowledges twice the call returns 0 and the only bytes sent are
  \<open>68 69\<close>; with a silent device it returns \<open>-1\<close> and nothing is sent. The header
  \<open>'@' 't' 00 "A.TXT" 00 00 00 00 02\<close> does not go out in either case.\<close>

theorem SDWriteFileFAT_header_never_sent:
  "fst (SDWriteFileFAT (Some [0x68, 0x69]) 2 (Some [0x41, 0x2E, 0x54, 0x58, 0x54, 0x00]) False
          (connected [RdData [0x06], RdData [0x06]])) = 0
   \<and> txlog (port (snd (SDWriteFileFAT (Some [0x68, 0x69]) 2
          (Some [0x41, 0x2E, 0x54, 0x58, 0x54, 0x00]) False
          (connected [RdData [0x06], RdData [0x06]])))) = [0x68, 0x69]
   \<and> fst (SDWriteFileFAT (Some [0x68, 0x69]) 2 (Some [0x41, 0x2E, 0x54, 0x58, 0x54, 0x00]) False
          (connected [])) = -1
   \<and> txlog (port (snd (SDWriteFileFAT (Some [0x68, 0x69]) 2
          (Some [0x41, 0x2E, 0x54, 0x58, 0x54, 0x00]) False (connected [])))) = []"
  by code_simp

text \<open>C2. \<open>SDListDirFAT\<close> with pattern \<open>*\<close>: when the device sends \<open>'A' LF ACK\<close>
  the call returns 0 and the list is empty; when it sends \<open>'A' LF NACK 'B' LF ACK\<close>
  the call does not stop at the NACK and returns 1 with the single entry \<open>15\<close>.\<close>

theorem SDListDirFAT_drops_entries:
  "fst (SDListDirFAT (Some [0x2A, 0x00]) [] (connected [RdData [0x41, 0x0A, 0x06]])) = 0
   \<and> fst (snd (SDListDirFAT (Some [0x2A, 0x00]) [] (connected [RdData [0x41, 0x0A, 0x06]]))) = []
   \<and> fst (SDListDirFAT (Some [0x2A, 0x00]) []
             (connected [RdData [0x41, 0x0A, 0x15, 0x42, 0x0A, 0x06]])) = 1
   \<and> fst (snd (SDListDirFAT (Some [0x2A, 0x00]) []
             (connected [RdData [0x41, 0x0A, 0x15, 0x42, 0x0A, 0x06]]))) = [[0x15]]"
  by code_simp

end
